theory Spec2Isabelle
  imports Main
begin

section \<open>The Xiaomi 1C vacuum entity (custom\_components/xiaomi\_vacuum/vacuum.py)\<close>

subsection \<open>Values of the host platform and of the device client\<close>

text \<open>
  The members of the platform's \<open>VacuumActivity\<close> enumeration.
\<close>

datatype VacuumActivity = CLEANING | DOCKED | IDLE | PAUSED | RETURNING | ERROR

text \<open>
  The status object that \<open>self._device.status()\<close> returns: the six attributes that
  \<open>update\<close> reads. The entity stores each of them in a field annotated \<open>Optional[int]\<close>.
\<close>

record device_status =
  status_battery :: "int option"
  status_fan_speed :: "int option"
  status_status :: "int option"
  status_error :: "int option"
  status_last_clean :: "int option"
  status_area :: "int option"

text \<open>
  The \<open>params\<close> argument of \<open>send_command\<close>: \<open>None\<close>, a list or a dictionary.
  \<open>truthy\<close> is Python's truth value of such an argument, which \<open>params or []\<close> tests.
\<close>

datatype pyval =
    PNone
  | PInt int
  | PStr string
  | PList "pyval list"
  | PDict "(string \<times> pyval) list"

fun truthy :: "pyval \<Rightarrow> bool" where
  "truthy PNone = False"
| "truthy (PInt i) = (i \<noteq> 0)"
| "truthy (PStr s) = (s \<noteq> [])"
| "truthy (PList xs) = (xs \<noteq> [])"
| "truthy (PDict kvs) = (kvs \<noteq> [])"

text \<open>
  Exceptions: \<open>DeviceException\<close> (with its message) is the one \<open>update\<close> catches; any
  other exception is \<open>OtherException\<close>.
\<close>

datatype exn = DeviceException string | OtherException string

text \<open>
  The methods of the device client that the entity calls, with their arguments.
\<close>

datatype device_call =
    Dev_status
  | Dev_start
  | Dev_stop
  | Dev_stop_sweeping
  | Dev_return_home
  | Dev_find
  | Dev_set_fan_speed int
  | Dev_raw_command string pyval

text \<open>
  The device client is an external collaborator. Its behaviour is a parameter: what
  \<open>status()\<close> answers, and what any other method answers, given the calls made so far.
  Each answer is a return value (\<open>Inr\<close>) or a raised exception (\<open>Inl\<close>).
\<close>

record device =
  on_status :: "device_call list \<Rightarrow> exn + device_status"
  on_command :: "device_call list \<Rightarrow> device_call \<Rightarrow> exn + unit"

subsection \<open>Module constants\<close>

definition FAN_SPEEDS :: "(string \<times> int) list" where
  "FAN_SPEEDS = [(''Silent'', 0), (''Standard'', 1), (''Medium'', 2), (''Turbo'', 3)]"

definition STATUS_TO_ACTIVITY :: "(int \<times> VacuumActivity) list" where
  "STATUS_TO_ACTIVITY =
     [(1, CLEANING), (2, IDLE), (3, PAUSED), (4, ERROR), (5, RETURNING), (6, DOCKED)]"

text \<open>\<open>d.get(k, default)\<close> on a dictionary given by its items.\<close>

definition dict_get :: "('k \<times> 'v) list \<Rightarrow> 'k \<Rightarrow> 'v \<Rightarrow> 'v" where
  "dict_get d k dflt = (case map_of d k of None \<Rightarrow> dflt | Some v \<Rightarrow> v)"

subsection \<open>The entity\<close>

text \<open>
  The fields of \<open>Xiaomi1CVacuum\<close> that \<open>__init__\<close> sets, but for \<open>_device\<close>: the device
  is the \<open>device\<close> parameter of the methods, and the calls made on it are recorded in
  the \<open>world\<close> below.
\<close>

record entity =
  self_name :: string
  self_available :: bool
  self_battery :: "int option"
  self_fan_speed :: "int option"
  self_status :: "int option"
  self_error :: "int option"
  self_clean_time :: "int option"
  self_clean_area :: "int option"

definition init :: "string \<Rightarrow> entity" where
  "init nm =
     \<lparr> self_name = nm,
       self_available = False,
       self_battery = None,
       self_fan_speed = None,
       self_status = None,
       self_error = None,
       self_clean_time = None,
       self_clean_area = None \<rparr>"

text \<open>
  What a method can change: the entity, the sequence of calls made on the device client
  (oldest first) and the messages given to \<open>_LOGGER.error\<close> (oldest first).
\<close>

record world =
  ent :: entity
  dev_calls :: "device_call list"
  logged :: "string list"

text \<open>How a method ends: it returns (all of them return \<open>None\<close>), or an exception leaves it.\<close>

datatype outcome = Returned | Raised exn

subsection \<open>Properties\<close>

definition available :: "entity \<Rightarrow> bool" where
  "available e = self_available e"

definition activity :: "entity \<Rightarrow> VacuumActivity option" where
  "activity e =
     (case self_status e of
        None \<Rightarrow> None
      | Some c \<Rightarrow> Some (dict_get STATUS_TO_ACTIVITY c IDLE))"

definition battery_level :: "entity \<Rightarrow> int option" where
  "battery_level e = self_battery e"

text \<open>
  \<open>rev = {v: k for k, v in FAN_SPEEDS.items()}\<close>: the items are inserted in order, a later
  one replacing an earlier one with the same key.
\<close>

definition fan_speeds_rev :: "int \<rightharpoonup> string" where
  "fan_speeds_rev = fold (\<lambda>(k, v) m. m(v \<mapsto> k)) FAN_SPEEDS Map.empty"

definition fan_speed :: "entity \<Rightarrow> string option" where
  "fan_speed e =
     (case self_fan_speed e of
        None \<Rightarrow> None
      | Some n \<Rightarrow> Some (case fan_speeds_rev n of None \<Rightarrow> ''Standard'' | Some k \<Rightarrow> k))"

definition fan_speed_list :: "string list" where
  "fan_speed_list = map fst FAN_SPEEDS"

text \<open>
  \<open>extra_state_attributes\<close> builds a dictionary by at most three insertions of distinct
  keys; it is given by its items, in insertion order.
\<close>

definition extra_state_attributes :: "entity \<Rightarrow> (string \<times> int) list" where
  "extra_state_attributes e =
     (let attrs = [];
          attrs = (case self_clean_time e of
                     None \<Rightarrow> attrs
                   | Some t \<Rightarrow> attrs @ [(''cleaning_time'', t)]);
          attrs = (case self_clean_area e of
                     None \<Rightarrow> attrs
                   | Some a \<Rightarrow> attrs @ [(''cleaning_area'', a)]);
          attrs = (case self_error e of
                     None \<Rightarrow> attrs
                   | Some err \<Rightarrow> if err \<noteq> 0 then attrs @ [(''error_code'', err)] else attrs)
      in attrs)"

subsection \<open>Calls on the device client\<close>

definition call_status :: "device \<Rightarrow> world \<Rightarrow> (exn + device_status) \<times> world" where
  "call_status dev w =
     (on_status dev (dev_calls w), w\<lparr>dev_calls := dev_calls w @ [Dev_status]\<rparr>)"

definition call_command :: "device \<Rightarrow> device_call \<Rightarrow> world \<Rightarrow> outcome \<times> world" where
  "call_command dev c w =
     (case on_command dev (dev_calls w) c of
        Inl x \<Rightarrow> (Raised x, w\<lparr>dev_calls := dev_calls w @ [c]\<rparr>)
      | Inr u \<Rightarrow> (Returned, w\<lparr>dev_calls := dev_calls w @ [c]\<rparr>))"

subsection \<open>Polling\<close>

definition store_status :: "device_status \<Rightarrow> entity \<Rightarrow> entity" where
  "store_status st e =
     e\<lparr> self_available := True,
        self_battery := status_battery st,
        self_fan_speed := status_fan_speed st,
        self_status := status_status st,
        self_error := status_error st,
        self_clean_time := status_last_clean st,
        self_clean_area := status_area st \<rparr>"

definition update :: "device \<Rightarrow> world \<Rightarrow> outcome \<times> world" where
  "update dev w =
     (case call_status dev w of
        (Inr st, w1) \<Rightarrow> (Returned, w1\<lparr>ent := store_status st (ent w1)\<rparr>)
      | (Inl (DeviceException msg), w1) \<Rightarrow>
          (Returned,
           w1\<lparr>logged := logged w1 @ [''Update failed: '' @ msg],
              ent := (ent w1)\<lparr>self_available := False\<rparr>\<rparr>)
      | (Inl (OtherException msg), w1) \<Rightarrow> (Raised (OtherException msg), w1))"

subsection \<open>Vacuum commands\<close>

definition start :: "device \<Rightarrow> world \<Rightarrow> outcome \<times> world" where
  "start dev w = call_command dev Dev_start w"

definition stop :: "device \<Rightarrow> world \<Rightarrow> outcome \<times> world" where
  "stop dev w = call_command dev Dev_stop w"

definition pause :: "device \<Rightarrow> world \<Rightarrow> outcome \<times> world" where
  "pause dev w = call_command dev Dev_stop_sweeping w"

definition return_to_base :: "device \<Rightarrow> world \<Rightarrow> outcome \<times> world" where
  "return_to_base dev w = call_command dev Dev_return_home w"

definition locate :: "device \<Rightarrow> world \<Rightarrow> outcome \<times> world" where
  "locate dev w = call_command dev Dev_find w"

definition set_fan_speed :: "device \<Rightarrow> string \<Rightarrow> world \<Rightarrow> outcome \<times> world" where
  "set_fan_speed dev fs w =
     (case map_of FAN_SPEEDS fs of
        None \<Rightarrow> (Returned, w\<lparr>logged := logged w @ [''Invalid fan speed '' @ fs]\<rparr>)
      | Some n \<Rightarrow> call_command dev (Dev_set_fan_speed n) w)"

definition send_command :: "device \<Rightarrow> string \<Rightarrow> pyval \<Rightarrow> world \<Rightarrow> outcome \<times> world" where
  "send_command dev command params w =
     call_command dev (Dev_raw_command command (if truthy params then params else PList [])) w"

subsection \<open>Example worlds and devices\<close>

text \<open>
  The world right after \<open>setup_platform\<close> has built the entity: nothing called, nothing
  logged.
\<close>

definition new_world :: "string \<Rightarrow> world" where
  "new_world nm = \<lparr> ent = init nm, dev_calls = [], logged = [] \<rparr>"

definition example_status :: device_status where
  "example_status =
     \<lparr> status_battery = Some 87,
       status_fan_speed = Some 2,
       status_status = Some 1,
       status_error = Some 0,
       status_last_clean = Some 34,
       status_area = Some 21 \<rparr>"

text \<open>A device that answers every call, always with the same status.\<close>

definition steady_device :: "device_status \<Rightarrow> device" where
  "steady_device st = \<lparr> on_status = (\<lambda>h. Inr st), on_command = (\<lambda>h c. Inr ()) \<rparr>"

text \<open>
  A device whose first \<open>status()\<close> raises \<open>DeviceException\<close> and whose later ones
  succeed: a second attempt would go through.
\<close>

definition flaky_device :: "string \<Rightarrow> device_status \<Rightarrow> device" where
  "flaky_device msg st =
     \<lparr> on_status = (\<lambda>h. if Dev_status \<in> set h then Inr st else Inl (DeviceException msg)),
       on_command = (\<lambda>h c. Inr ()) \<rparr>"

section \<open>Properties of the entity\<close>

subsection \<open>Helper facts\<close>

lemma status_table_lookup:
  "map_of STATUS_TO_ACTIVITY c =
     (if c = 1 then Some CLEANING else if c = 2 then Some IDLE
      else if c = 3 then Some PAUSED else if c = 4 then Some ERROR
      else if c = 5 then Some RETURNING else if c = 6 then Some DOCKED else None)"
  by (simp add: STATUS_TO_ACTIVITY_def)

lemma fan_speeds_lookup:
  "map_of FAN_SPEEDS fs =
     (if fs = ''Silent'' then Some 0 else if fs = ''Standard'' then Some 1
      else if fs = ''Medium'' then Some 2 else if fs = ''Turbo'' then Some 3 else None)"
  by (simp add: FAN_SPEEDS_def)

lemma fan_speeds_rev_lookup:
  "fan_speeds_rev n =
     (if n = 3 then Some ''Turbo'' else if n = 2 then Some ''Medium''
      else if n = 1 then Some ''Standard'' else if n = 0 then Some ''Silent'' else None)"
  by (simp add: fan_speeds_rev_def FAN_SPEEDS_def)

lemma fan_speed_list_names: "fan_speed_list = [''Silent'', ''Standard'', ''Medium'', ''Turbo'']"
  by (simp add: fan_speed_list_def FAN_SPEEDS_def)

lemma call_command_calls: "dev_calls (snd (call_command dev c w)) = dev_calls w @ [c]"
  by (simp add: call_command_def split: sum.splits)

lemma call_command_ent: "ent (snd (call_command dev c w)) = ent w"
  by (simp add: call_command_def split: sum.splits)

lemma set_fan_speed_ent: "ent (snd (set_fan_speed dev fs w)) = ent w"
  by (simp add: set_fan_speed_def call_command_ent split: option.splits)

lemma update_success:
  "on_status dev (dev_calls w) = Inr st \<Longrightarrow>
   update dev w =
     (Returned, w\<lparr>dev_calls := dev_calls w @ [Dev_status], ent := store_status st (ent w)\<rparr>)"
  by (simp add: update_def call_status_def)

lemma update_device_exception:
  "on_status dev (dev_calls w) = Inl (DeviceException msg) \<Longrightarrow>
   update dev w =
     (Returned,
      w\<lparr>dev_calls := dev_calls w @ [Dev_status],
        logged := logged w @ [''Update failed: '' @ msg],
        ent := (ent w)\<lparr>self_available := False\<rparr>\<rparr>)"
  by (simp add: update_def call_status_def)

text \<open>
  An exception other than \<open>DeviceException\<close> is not caught: it leaves \<open>update\<close>, and the
  entity is as it was.
\<close>

lemma update_other_exception:
  "on_status dev (dev_calls w) = Inl (OtherException msg) \<Longrightarrow>
   update dev w = (Raised (OtherException msg), w\<lparr>dev_calls := dev_calls w @ [Dev_status]\<rparr>)"
  by (simp add: update_def call_status_def)

subsection \<open>The lookup tables\<close>

text \<open>
  C1. The activity is a lookup in the fixed table: when the stored status code is one of
  1, 2, 3, 4, 5, 6, the \<open>activity\<close> property is the table's entry for it, which is
  CLEANING, IDLE, PAUSED, ERROR, RETURNING, DOCKED respectively.
\<close>

theorem activity_is_table_lookup:
  assumes "self_status e = Some c" and "c \<in> {1, 2, 3, 4, 5, 6}"
  shows "map_of STATUS_TO_ACTIVITY c = activity e
       \<and> activity e =
           Some (if c = 1 then CLEANING else if c = 2 then IDLE
                 else if c = 3 then PAUSED else if c = 4 then ERROR
                 else if c = 5 then RETURNING else DOCKED)"
  using assms by (auto simp: activity_def dict_get_def status_table_lookup)

theorem activity_is_table_lookup_witness:
  "self_status ((init ''Xiaomi 1C'')\<lparr>self_status := Some 5\<rparr>) = Some 5
   \<and> (5::int) \<in> {1, 2, 3, 4, 5, 6}
   \<and> map_of STATUS_TO_ACTIVITY 5 = Some RETURNING
   \<and> activity ((init ''Xiaomi 1C'')\<lparr>self_status := Some 5\<rparr>) = Some RETURNING"
  using activity_is_table_lookup [of "(init ''Xiaomi 1C'')\<lparr>self_status := Some 5\<rparr>" 5]
  by (simp add: init_def)

text \<open>
  C7. The activity is defined for every stored status: it is \<open>None\<close> exactly when the
  stored status is \<open>None\<close>, and a status code that is not one of the table's keys
  1, ..., 6 gives the fallback IDLE.
\<close>

theorem activity_total:
  "(activity e = None \<longleftrightarrow> self_status e = None)
   \<and> (self_status e = Some c \<and> c \<notin> {1, 2, 3, 4, 5, 6} \<longrightarrow> activity e = Some IDLE)
   \<and> fst ` set STATUS_TO_ACTIVITY = {1, 2, 3, 4, 5, 6}"
  by (auto simp: activity_def dict_get_def status_table_lookup STATUS_TO_ACTIVITY_def
        split: option.splits)

theorem activity_total_witness:
  "activity (init ''Xiaomi 1C'') = None
   \<and> self_status ((init ''Xiaomi 1C'')\<lparr>self_status := Some 42\<rparr>) = Some 42
   \<and> (42::int) \<notin> {1, 2, 3, 4, 5, 6}
   \<and> activity ((init ''Xiaomi 1C'')\<lparr>self_status := Some 42\<rparr>) = Some IDLE
   \<and> activity ((init ''Xiaomi 1C'')\<lparr>self_status := Some (- 1)\<rparr>) = Some IDLE"
  using activity_total [of "init ''Xiaomi 1C''" 0]
        activity_total [of "(init ''Xiaomi 1C'')\<lparr>self_status := Some 42\<rparr>" 42]
        activity_total [of "(init ''Xiaomi 1C'')\<lparr>self_status := Some (- 1)\<rparr>" "- 1"]
  by (simp add: init_def)

text \<open>
  C2. Setting the fan speed goes through the fixed mapping: for each of the names
  Silent, Standard, Medium, Turbo, \<open>set_fan_speed\<close> makes exactly the call
  \<open>set_fan_speed(n)\<close> on the device client with n = 0, 1, 2, 3 respectively; for any other
  name it makes no call on the device client and returns without raising.
\<close>

theorem set_fan_speed_uses_mapping:
  "(fs \<in> {''Silent'', ''Standard'', ''Medium'', ''Turbo''} \<longrightarrow>
      dev_calls (snd (set_fan_speed dev fs w)) =
        dev_calls w @
          [Dev_set_fan_speed
             (if fs = ''Silent'' then 0 else if fs = ''Standard'' then 1
              else if fs = ''Medium'' then 2 else 3)]
      \<and> map_of FAN_SPEEDS fs =
          Some (if fs = ''Silent'' then 0 else if fs = ''Standard'' then 1
                else if fs = ''Medium'' then 2 else 3))
   \<and> (fs \<notin> {''Silent'', ''Standard'', ''Medium'', ''Turbo''} \<longrightarrow>
        map_of FAN_SPEEDS fs = None
        \<and> dev_calls (snd (set_fan_speed dev fs w)) = dev_calls w
        \<and> fst (set_fan_speed dev fs w) = Returned)"
  by (auto simp: set_fan_speed_def fan_speeds_lookup call_command_calls)

theorem set_fan_speed_uses_mapping_witness:
  "''Turbo'' \<in> {''Silent'', ''Standard'', ''Medium'', ''Turbo''}
   \<and> dev_calls (snd (set_fan_speed (steady_device example_status) ''Turbo''
                       (new_world ''Xiaomi 1C'')))
       = [Dev_set_fan_speed 3]
   \<and> ''Max'' \<notin> {''Silent'', ''Standard'', ''Medium'', ''Turbo''}
   \<and> dev_calls (snd (set_fan_speed (steady_device example_status) ''Max''
                       (new_world ''Xiaomi 1C'')))
       = []
   \<and> fst (set_fan_speed (steady_device example_status) ''Max'' (new_world ''Xiaomi 1C''))
       = Returned"
  using set_fan_speed_uses_mapping
          [of "''Turbo''" "steady_device example_status" "new_world ''Xiaomi 1C''"]
        set_fan_speed_uses_mapping
          [of "''Max''" "steady_device example_status" "new_world ''Xiaomi 1C''"]
  by (simp add: new_world_def)

subsection \<open>Polling the device\<close>

text \<open>
  C3. Whatever the entity's state before \<open>update\<close>: if the status call raises
  \<open>DeviceException\<close>, the entity is unavailable afterwards; if the status call returns,
  the entity is available afterwards.
\<close>

theorem update_sets_available:
  "(on_status dev (dev_calls w) = Inl (DeviceException msg) \<longrightarrow>
      available (ent (snd (update dev w))) = False)
   \<and> (on_status dev (dev_calls w) = Inr st \<longrightarrow>
      available (ent (snd (update dev w))) = True)"
  by (simp add: update_success update_device_exception available_def store_status_def)

theorem update_sets_available_witness:
  "on_status (flaky_device ''timeout'' example_status) (dev_calls (new_world ''Xiaomi 1C''))
     = Inl (DeviceException ''timeout'')
   \<and> available (ent (snd (update (flaky_device ''timeout'' example_status)
                               (new_world ''Xiaomi 1C'')))) = False
   \<and> on_status (steady_device example_status) (dev_calls (new_world ''Xiaomi 1C''))
     = Inr example_status
   \<and> available (ent (new_world ''Xiaomi 1C'')) = False
   \<and> available (ent (snd (update (steady_device example_status)
                               (new_world ''Xiaomi 1C'')))) = True"
  using update_sets_available
          [of "flaky_device ''timeout'' example_status" "new_world ''Xiaomi 1C''" "''timeout''"
              example_status]
        update_sets_available
          [of "steady_device example_status" "new_world ''Xiaomi 1C''" "''timeout''"
              example_status]
  by (simp add: new_world_def flaky_device_def steady_device_def available_def init_def)

text \<open>
  C4. When the status call of \<open>update\<close> raises \<open>DeviceException\<close>, \<open>update\<close> returns, the
  entity differs from the one before in the available flag at most (battery, fan speed,
  status, error, clean time and clean area keep their values), and the device client has
  been called once, with \<open>status()\<close>: there is no second attempt.
\<close>

theorem update_failure_frame:
  assumes "on_status dev (dev_calls w) = Inl (DeviceException msg)"
  shows "fst (update dev w) = Returned
       \<and> ent (snd (update dev w)) = (ent w)\<lparr>self_available := False\<rparr>
       \<and> self_battery (ent (snd (update dev w))) = self_battery (ent w)
       \<and> self_fan_speed (ent (snd (update dev w))) = self_fan_speed (ent w)
       \<and> self_status (ent (snd (update dev w))) = self_status (ent w)
       \<and> self_error (ent (snd (update dev w))) = self_error (ent w)
       \<and> self_clean_time (ent (snd (update dev w))) = self_clean_time (ent w)
       \<and> self_clean_area (ent (snd (update dev w))) = self_clean_area (ent w)
       \<and> dev_calls (snd (update dev w)) = dev_calls w @ [Dev_status]"
  by (simp add: update_device_exception [OF assms])

text \<open>
  The witness: an entity that holds an earlier poll's values, and a device whose first
  status call fails and whose second would succeed.
\<close>

theorem update_failure_frame_witness:
  "on_status (flaky_device ''timeout'' example_status) [] = Inl (DeviceException ''timeout'')
   \<and> on_status (flaky_device ''timeout'' example_status) [Dev_status] = Inr example_status
   \<and> ent (snd (update (flaky_device ''timeout'' example_status)
                  ((new_world ''Xiaomi 1C'')
                     \<lparr>ent := store_status example_status (init ''Xiaomi 1C'')\<rparr>)))
       = \<lparr> self_name = ''Xiaomi 1C'',
           self_available = False,
           self_battery = Some 87,
           self_fan_speed = Some 2,
           self_status = Some 1,
           self_error = Some 0,
           self_clean_time = Some 34,
           self_clean_area = Some 21 \<rparr>
   \<and> dev_calls (snd (update (flaky_device ''timeout'' example_status)
                  ((new_world ''Xiaomi 1C'')
                     \<lparr>ent := store_status example_status (init ''Xiaomi 1C'')\<rparr>)))
       = [Dev_status]"
  using update_failure_frame
          [of "flaky_device ''timeout'' example_status"
              "(new_world ''Xiaomi 1C'')\<lparr>ent := store_status example_status (init ''Xiaomi 1C'')\<rparr>"
              "''timeout''"]
  by (simp add: new_world_def flaky_device_def init_def store_status_def example_status_def)

text \<open>
  C6. When the status call of \<open>update\<close> returns the status s, the entity afterwards stores
  s.battery, s.fan\_speed, s.status, s.error, s.last\_clean and s.area as its battery, fan
  speed, status, error, clean time and clean area, and the properties \<open>battery_level\<close>,
  \<open>activity\<close>, \<open>fan_speed\<close> and \<open>extra_state_attributes\<close> are what they are on any entity
  \<open>x\<close> that stores these values: they depend on nothing else.
\<close>

theorem update_success_translates:
  assumes "on_status dev (dev_calls w) = Inr s"
  shows "fst (update dev w) = Returned
       \<and> self_battery (ent (snd (update dev w))) = status_battery s
       \<and> self_fan_speed (ent (snd (update dev w))) = status_fan_speed s
       \<and> self_status (ent (snd (update dev w))) = status_status s
       \<and> self_error (ent (snd (update dev w))) = status_error s
       \<and> self_clean_time (ent (snd (update dev w))) = status_last_clean s
       \<and> self_clean_area (ent (snd (update dev w))) = status_area s
       \<and> battery_level (ent (snd (update dev w))) = status_battery s
       \<and> battery_level (ent (snd (update dev w)))
           = battery_level (x\<lparr>self_battery := status_battery s\<rparr>)
       \<and> activity (ent (snd (update dev w))) = activity (x\<lparr>self_status := status_status s\<rparr>)
       \<and> fan_speed (ent (snd (update dev w)))
           = fan_speed (x\<lparr>self_fan_speed := status_fan_speed s\<rparr>)
       \<and> extra_state_attributes (ent (snd (update dev w)))
           = extra_state_attributes
               (x\<lparr>self_clean_time := status_last_clean s,
                  self_clean_area := status_area s,
                  self_error := status_error s\<rparr>)"
  by (simp add: update_success [OF assms] store_status_def battery_level_def activity_def
        fan_speed_def extra_state_attributes_def Let_def)

theorem update_success_translates_witness:
  "on_status (steady_device example_status) (dev_calls (new_world ''Xiaomi 1C''))
     = Inr example_status
   \<and> ent (snd (update (steady_device example_status) (new_world ''Xiaomi 1C'')))
       = \<lparr> self_name = ''Xiaomi 1C'',
           self_available = True,
           self_battery = Some 87,
           self_fan_speed = Some 2,
           self_status = Some 1,
           self_error = Some 0,
           self_clean_time = Some 34,
           self_clean_area = Some 21 \<rparr>
   \<and> battery_level (ent (snd (update (steady_device example_status)
                                (new_world ''Xiaomi 1C'')))) = Some 87
   \<and> activity (ent (snd (update (steady_device example_status)
                           (new_world ''Xiaomi 1C'')))) = Some CLEANING
   \<and> fan_speed (ent (snd (update (steady_device example_status)
                            (new_world ''Xiaomi 1C'')))) = Some ''Medium''
   \<and> extra_state_attributes (ent (snd (update (steady_device example_status)
                                         (new_world ''Xiaomi 1C''))))
       = [(''cleaning_time'', 34), (''cleaning_area'', 21)]"
proof -
  have poll: "on_status (steady_device example_status) (dev_calls (new_world ''Xiaomi 1C''))
     = Inr example_status"
    by (simp add: steady_device_def)
  have stored: "ent (snd (update (steady_device example_status) (new_world ''Xiaomi 1C'')))
       = \<lparr> self_name = ''Xiaomi 1C'', self_available = True, self_battery = Some 87,
           self_fan_speed = Some 2, self_status = Some 1, self_error = Some 0,
           self_clean_time = Some 34, self_clean_area = Some 21 \<rparr>"
    by (subst update_success [OF poll])
       (simp add: store_status_def example_status_def new_world_def init_def)
  from update_success_translates [OF poll, of "init ''Xiaomi 1C''"] poll stored
  show ?thesis
    by (simp add: example_status_def init_def battery_level_def activity_def dict_get_def
          status_table_lookup fan_speed_def fan_speeds_rev_lookup extra_state_attributes_def)
qed

subsection \<open>The fan speed, there and back\<close>

text \<open>
  C8. The fan-speed mapping round-trips. For every name in \<open>fan_speed_list\<close>, the reversed
  mapping takes the name's integer back to the name (the integers of the table are
  distinct). So when \<open>set_fan_speed\<close> of such a name has sent the integer n to the device
  and a later successful \<open>update\<close> reads a status whose fan speed is n, the \<open>fan_speed\<close>
  property is that name. A stored integer outside 0, 1, 2, 3 gives Standard, and the
  property is \<open>None\<close> exactly when the stored fan speed is \<open>None\<close>.
\<close>

theorem fan_speed_round_trip:
  "(nm \<in> set fan_speed_list \<longrightarrow>
      (\<exists>n. map_of FAN_SPEEDS nm = Some n \<and> fan_speeds_rev n = Some nm))
   \<and> distinct (map snd FAN_SPEEDS)
   \<and> (nm \<in> set fan_speed_list
        \<and> dev_calls (snd (set_fan_speed dev nm w)) = dev_calls w @ [Dev_set_fan_speed n]
        \<and> on_status dev' (dev_calls w') = Inr s
        \<and> status_fan_speed s = Some n
      \<longrightarrow> fan_speed (ent (snd (update dev' w'))) = Some nm)
   \<and> (self_fan_speed e = Some k \<and> k \<notin> {0, 1, 2, 3} \<longrightarrow> fan_speed e = Some ''Standard'')
   \<and> (fan_speed e = None \<longleftrightarrow> self_fan_speed e = None)"
proof (intro conjI)
  show "nm \<in> set fan_speed_list \<longrightarrow>
      (\<exists>n. map_of FAN_SPEEDS nm = Some n \<and> fan_speeds_rev n = Some nm)"
    by (auto simp: fan_speed_list_names fan_speeds_lookup fan_speeds_rev_lookup)
  show "distinct (map snd FAN_SPEEDS)"
    by (simp add: FAN_SPEEDS_def)
  show "nm \<in> set fan_speed_list
        \<and> dev_calls (snd (set_fan_speed dev nm w)) = dev_calls w @ [Dev_set_fan_speed n]
        \<and> on_status dev' (dev_calls w') = Inr s
        \<and> status_fan_speed s = Some n
      \<longrightarrow> fan_speed (ent (snd (update dev' w'))) = Some nm"
    by (auto simp: fan_speed_list_names set_fan_speed_def fan_speeds_lookup
          call_command_calls update_success store_status_def fan_speed_def
          fan_speeds_rev_lookup)
  show "self_fan_speed e = Some k \<and> k \<notin> {0, 1, 2, 3} \<longrightarrow> fan_speed e = Some ''Standard''"
    by (auto simp: fan_speed_def fan_speeds_rev_lookup)
  show "fan_speed e = None \<longleftrightarrow> self_fan_speed e = None"
    by (simp add: fan_speed_def split: option.splits)
qed

text \<open>
  The witness: Turbo is sent as 3; a device that then reports fan speed 3 makes the
  property Turbo again; a stored 7 reads as Standard.
\<close>

theorem fan_speed_round_trip_witness:
  "''Turbo'' \<in> set fan_speed_list
   \<and> dev_calls (snd (set_fan_speed (steady_device example_status) ''Turbo''
                       (new_world ''Xiaomi 1C'')))
       = dev_calls (new_world ''Xiaomi 1C'') @ [Dev_set_fan_speed 3]
   \<and> on_status (steady_device (example_status\<lparr>status_fan_speed := Some 3\<rparr>))
        (dev_calls (new_world ''Xiaomi 1C''))
       = Inr (example_status\<lparr>status_fan_speed := Some 3\<rparr>)
   \<and> status_fan_speed (example_status\<lparr>status_fan_speed := Some 3\<rparr>) = Some 3
   \<and> fan_speed (ent (snd (update (steady_device (example_status\<lparr>status_fan_speed := Some 3\<rparr>))
                            (new_world ''Xiaomi 1C'')))) = Some ''Turbo''
   \<and> self_fan_speed ((init ''Xiaomi 1C'')\<lparr>self_fan_speed := Some 7\<rparr>) = Some 7
   \<and> (7::int) \<notin> {0, 1, 2, 3}
   \<and> fan_speed ((init ''Xiaomi 1C'')\<lparr>self_fan_speed := Some 7\<rparr>) = Some ''Standard''"
proof -
  have sent: "dev_calls (snd (set_fan_speed (steady_device example_status) ''Turbo''
                       (new_world ''Xiaomi 1C'')))
       = dev_calls (new_world ''Xiaomi 1C'') @ [Dev_set_fan_speed 3]"
    by (simp add: set_fan_speed_def fan_speeds_lookup call_command_calls)
  have listed: "''Turbo'' \<in> set fan_speed_list"
    by (simp add: fan_speed_list_names)
  have poll: "on_status (steady_device (example_status\<lparr>status_fan_speed := Some 3\<rparr>))
        (dev_calls (new_world ''Xiaomi 1C''))
       = Inr (example_status\<lparr>status_fan_speed := Some 3\<rparr>)"
    by (simp add: steady_device_def)
  have reported: "status_fan_speed (example_status\<lparr>status_fan_speed := Some 3\<rparr>) = Some 3"
    by simp
  have stored: "self_fan_speed ((init ''Xiaomi 1C'')\<lparr>self_fan_speed := Some 7\<rparr>) = Some 7"
    by simp
  from fan_speed_round_trip
         [of "''Turbo''" "steady_device example_status" "new_world ''Xiaomi 1C''" 3
             "steady_device (example_status\<lparr>status_fan_speed := Some 3\<rparr>)"
             "new_world ''Xiaomi 1C''" "example_status\<lparr>status_fan_speed := Some 3\<rparr>"
             "(init ''Xiaomi 1C'')\<lparr>self_fan_speed := Some 7\<rparr>" 7]
  have "fan_speed (ent (snd (update (steady_device (example_status\<lparr>status_fan_speed := Some 3\<rparr>))
                            (new_world ''Xiaomi 1C'')))) = Some ''Turbo''"
    and "fan_speed ((init ''Xiaomi 1C'')\<lparr>self_fan_speed := Some 7\<rparr>) = Some ''Standard''"
    using sent listed poll reported stored by simp_all
  with sent listed poll reported stored show ?thesis
    by simp
qed

subsection \<open>Extra state attributes\<close>

text \<open>
  C9. The dictionary of \<open>extra_state_attributes\<close> has the key \<open>cleaning_time\<close> exactly when
  the stored clean time is not \<open>None\<close>, the key \<open>cleaning_area\<close> exactly when the stored
  clean area is not \<open>None\<close>, the key \<open>error_code\<close> exactly when the stored error is neither
  \<open>None\<close> nor 0, and no key but these three.
\<close>

theorem extra_state_attributes_keys:
  "(''cleaning_time'' \<in> fst ` set (extra_state_attributes e) \<longleftrightarrow> self_clean_time e \<noteq> None)
   \<and> (''cleaning_area'' \<in> fst ` set (extra_state_attributes e) \<longleftrightarrow> self_clean_area e \<noteq> None)
   \<and> (''error_code'' \<in> fst ` set (extra_state_attributes e)
        \<longleftrightarrow> self_error e \<noteq> None \<and> self_error e \<noteq> Some 0)
   \<and> fst ` set (extra_state_attributes e)
        \<subseteq> {''cleaning_time'', ''cleaning_area'', ''error_code''}"
  by (cases "self_clean_time e"; cases "self_clean_area e"; cases "self_error e")
     (auto simp: extra_state_attributes_def Let_def)

theorem extra_state_attributes_keys_witness:
  "''cleaning_time'' \<in> fst ` set (extra_state_attributes
        ((init ''Xiaomi 1C'')\<lparr>self_clean_time := Some 34, self_error := Some 0\<rparr>))
   \<and> ''cleaning_area'' \<notin> fst ` set (extra_state_attributes
        ((init ''Xiaomi 1C'')\<lparr>self_clean_time := Some 34, self_error := Some 0\<rparr>))
   \<and> ''error_code'' \<notin> fst ` set (extra_state_attributes
        ((init ''Xiaomi 1C'')\<lparr>self_clean_time := Some 34, self_error := Some 0\<rparr>))
   \<and> ''error_code'' \<in> fst ` set (extra_state_attributes
        ((init ''Xiaomi 1C'')\<lparr>self_clean_area := Some 21, self_error := Some 12\<rparr>))"
  using extra_state_attributes_keys
          [of "(init ''Xiaomi 1C'')\<lparr>self_clean_time := Some 34, self_error := Some 0\<rparr>"]
        extra_state_attributes_keys
          [of "(init ''Xiaomi 1C'')\<lparr>self_clean_area := Some 21, self_error := Some 12\<rparr>"]
  by (simp add: init_def)

subsection \<open>Commands\<close>

text \<open>
  C5, as the claim states it, fails: not every command makes exactly one call on the
  device client. With a name that is not a fan speed, \<open>set_fan_speed\<close> returns after
  logging an error, and the device client has not been called.
\<close>

theorem set_fan_speed_unknown_name_counterexample:
  "set_fan_speed (steady_device example_status) ''Max'' (new_world ''Xiaomi 1C'')
     = (Returned,
        \<lparr> ent = init ''Xiaomi 1C'', dev_calls = [], logged = [''Invalid fan speed Max''] \<rparr>)
   \<and> dev_calls (snd (set_fan_speed (steady_device example_status) ''Max''
                       (new_world ''Xiaomi 1C'')))
       = dev_calls (new_world ''Xiaomi 1C'')
   \<and> length (dev_calls (snd (set_fan_speed (steady_device example_status) ''Max''
                               (new_world ''Xiaomi 1C''))))
       \<noteq> length (dev_calls (new_world ''Xiaomi 1C'')) + 1"
  by (simp add: set_fan_speed_def fan_speeds_lookup new_world_def)

text \<open>
  C5, amended. Every command delegates to one method of the device client: \<open>start\<close> to
  \<open>start\<close>, \<open>stop\<close> to \<open>stop\<close>, \<open>pause\<close> to \<open>stop_sweeping\<close>, \<open>return_to_base\<close> to
  \<open>return_home\<close>, \<open>locate\<close> to \<open>find\<close>, \<open>set_fan_speed\<close> to \<open>set_fan_speed\<close> and
  \<open>send_command\<close> to \<open>raw_command\<close>. Each command makes exactly one call on the device
  client, except \<open>set_fan_speed\<close> with a name that is not a key of \<open>FAN_SPEEDS\<close>, which makes
  none. No command changes the entity.
\<close>

theorem commands_delegate:
  "dev_calls (snd (start dev w)) = dev_calls w @ [Dev_start]
   \<and> ent (snd (start dev w)) = ent w
   \<and> dev_calls (snd (stop dev w)) = dev_calls w @ [Dev_stop]
   \<and> ent (snd (stop dev w)) = ent w
   \<and> dev_calls (snd (pause dev w)) = dev_calls w @ [Dev_stop_sweeping]
   \<and> ent (snd (pause dev w)) = ent w
   \<and> dev_calls (snd (return_to_base dev w)) = dev_calls w @ [Dev_return_home]
   \<and> ent (snd (return_to_base dev w)) = ent w
   \<and> dev_calls (snd (locate dev w)) = dev_calls w @ [Dev_find]
   \<and> ent (snd (locate dev w)) = ent w
   \<and> (map_of FAN_SPEEDS fs = Some n \<longrightarrow>
        dev_calls (snd (set_fan_speed dev fs w)) = dev_calls w @ [Dev_set_fan_speed n])
   \<and> (fs \<notin> set fan_speed_list \<longrightarrow>
        dev_calls (snd (set_fan_speed dev fs w)) = dev_calls w)
   \<and> ent (snd (set_fan_speed dev fs w)) = ent w
   \<and> dev_calls (snd (send_command dev command params w))
       = dev_calls w
         @ [Dev_raw_command command (if truthy params then params else PList [])]
   \<and> ent (snd (send_command dev command params w)) = ent w"
proof -
  have valid: "map_of FAN_SPEEDS fs = Some n \<longrightarrow>
        dev_calls (snd (set_fan_speed dev fs w)) = dev_calls w @ [Dev_set_fan_speed n]"
    by (simp add: set_fan_speed_def call_command_calls)
  have invalid: "fs \<notin> set fan_speed_list \<longrightarrow>
        dev_calls (snd (set_fan_speed dev fs w)) = dev_calls w"
    by (simp add: set_fan_speed_def fan_speed_list_names fan_speeds_lookup)
  from valid invalid show ?thesis
    by (simp add: start_def stop_def pause_def return_to_base_def locate_def send_command_def
          call_command_calls call_command_ent set_fan_speed_ent)
qed

theorem commands_delegate_witness:
  "dev_calls (snd (pause (steady_device example_status) (new_world ''Xiaomi 1C'')))
     = [Dev_stop_sweeping]
   \<and> map_of FAN_SPEEDS ''Medium'' = Some 2
   \<and> dev_calls (snd (set_fan_speed (steady_device example_status) ''Medium''
                       (new_world ''Xiaomi 1C'')))
       = [Dev_set_fan_speed 2]
   \<and> ent (snd (set_fan_speed (steady_device example_status) ''Medium''
                 (new_world ''Xiaomi 1C'')))
       = init ''Xiaomi 1C''
   \<and> dev_calls (snd (send_command (steady_device example_status) ''get_properties'' PNone
                       (new_world ''Xiaomi 1C'')))
       = [Dev_raw_command ''get_properties'' (PList [])]"
  using commands_delegate
          [of "steady_device example_status" "new_world ''Xiaomi 1C''" "''Medium''" 2
              "''get_properties''" PNone]
  by (simp add: new_world_def fan_speeds_lookup)

end
